theory Spec2Isabelle
  imports Main "HOL-Library.AList"
begin

section \<open>Errors, panics and connections\<close>

text \<open>
  The errors the two packages return as values, and the run-time panics of Go that the
  code can reach.  A dial or server error carries its message.
\<close>

datatype error =
    ErrIllegalArgument
  | ErrPoolExhausted
  | ErrBadCmdNoKey
  | errNoPools
  | OtherErr string

datatype go_panic =
    DivideByZero
  | MakechanSize
  | NonPositiveTicker
  | SliceBounds
  | IndexOutOfRange
  | AtoiPanic

text \<open>
  A \<open>*redis.Client\<close>: the pools read its \<open>Addr\<close> and \<open>LastCritical\<close> fields only;
  \<open>cid\<close> tells two connections to one address apart.
\<close>

record client =
  cid :: nat
  cAddr :: string
  LastCritical :: "error option"

section \<open>The connection pool\<close>

text \<open>
  A buffered channel is the list of its contents (head received first) with its capacity.
  \<open>active\<close> and \<open>maxActive\<close> are \<open>int32\<close>: integers, with the wrap-around of the
  atomic additions and of the conversion \<open>int32(maxActive)\<close> written out by \<open>wrap32\<close>.
  Times are nanoseconds.
\<close>

definition wrap32 :: "int \<Rightarrow> int" where
  "wrap32 x = (x + 2147483648) mod 4294967296 - 2147483648"

definition waitForReuse :: int where
  "waitForReuse = 60000000000"

definition defaultMaxActive :: int where
  "defaultMaxActive = 100"

record pool =
  pool_ch :: "client list"
  pool_cap :: nat
  secondaryPool :: "client list"
  secondary_cap :: nat
  secondaryActive :: int
  active :: int
  maxActive :: int
  stopped :: bool
  Network :: string
  Addr :: string

text \<open>
  \<open>NewCustom\<close> returns \<open>(nil, ErrIllegalArgument)\<close>, or panics in \<open>make\<close> on a negative
  channel size, or returns \<open>(&p, err)\<close>.  In the last case it has started the goroutine
  of the periodic PING, whose first statement computes the ticker period
  \<open>5 * time.Minute / time.Duration(size)\<close>: the third component is that period, or the
  panic of the goroutine (which ends the process).
\<close>

datatype newcustom =
    Rejected error
  | Panicked go_panic
  | Built pool "error option" "go_panic + int"

definition tickPeriod :: "int \<Rightarrow> go_panic + int" where
  "tickPeriod sz =
     (if sz = 0 then Inl DivideByZero
      else if 300000000000 div sz \<le> 0 then Inl NonPositiveTicker
      else Inr (300000000000 div sz))"

text \<open>\<open>mkConn\<close>: dial, and on success send the client to \<open>p.pool\<close> and count it.
  The send blocks on a full channel: \<open>None\<close>.\<close>

definition mkConn :: "error + client \<Rightarrow> pool \<Rightarrow> (error option \<times> pool) option" where
  "mkConn dial p =
     (case dial of
        Inl e \<Rightarrow> Some (Some e, p)
      | Inr c \<Rightarrow>
          if length (pool_ch p) < pool_cap p
          then Some (None, p\<lparr>pool_ch := pool_ch p @ [c], active := wrap32 (active p + 1)\<rparr>)
          else None)"

definition NewCustom ::
  "string \<Rightarrow> string \<Rightarrow> int \<Rightarrow> int \<Rightarrow> error + client \<Rightarrow> int \<Rightarrow> newcustom" where
  "NewCustom network addr sz maxActive0 dial now =
     (if maxActive0 < sz then Rejected ErrIllegalArgument
      else
        let maxActive1 = (if maxActive0 \<le> 0 then defaultMaxActive else maxActive0) in
        if sz < 0 then Panicked MakechanSize
        else
          let p = \<lparr>pool_ch = [], pool_cap = nat sz,
                   secondaryPool = [], secondary_cap = nat (maxActive1 - sz),
                   secondaryActive = now, active = 0, maxActive = wrap32 maxActive1,
                   stopped = False, Network = network, Addr = addr\<rparr>
          in
          if sz < 1 then Built p None (tickPeriod sz)
          else
            (case mkConn dial p of
               None \<Rightarrow> Built p None (tickPeriod sz)
             | Some (Some e, p') \<Rightarrow> Built p' (Some e) (tickPeriod sz)
             | Some (None, p') \<Rightarrow> Built p' None (tickPeriod sz)))"

text \<open>The background loop of \<open>NewCustom\<close>: \<open>size - 1\<close> further \<open>mkConn\<close> calls, whose
  errors are dropped; one dial outcome per call.\<close>

fun initRest :: "(error + client) list \<Rightarrow> pool \<Rightarrow> pool" where
  "initRest [] p = p"
| "initRest (d # ds) p =
     (case mkConn d p of None \<Rightarrow> p | Some (_, p') \<Rightarrow> initRest ds p')"

text \<open>
  \<open>Get\<close>, run alone (the compare-and-swap then succeeds at once).  \<open>dial\<close> is what
  \<open>p.df\<close> answers if it is called, \<open>now\<close> what \<open>time.Now()\<close> returns.
\<close>

definition Get :: "int \<Rightarrow> error + client \<Rightarrow> pool \<Rightarrow> (error + client) \<times> pool" where
  "Get now dial p =
     (case pool_ch p of
        c # cs \<Rightarrow> (Inr c, p\<lparr>pool_ch := cs\<rparr>)
      | [] \<Rightarrow>
          (case secondaryPool p of
             c # cs \<Rightarrow> (Inr c, p\<lparr>secondaryPool := cs, secondaryActive := now\<rparr>)
           | [] \<Rightarrow>
               if active p < maxActive p then
                 (case dial of
                    Inl e \<Rightarrow> (Inl e, p\<lparr>active := wrap32 (wrap32 (active p + 1) - 1)\<rparr>)
                  | Inr c \<Rightarrow> (Inr c, p\<lparr>active := wrap32 (active p + 1)\<rparr>))
               else (Inl ErrPoolExhausted, p)))"

text \<open>\<open>Put\<close> returns the pool and the connections it called \<open>Close()\<close> on.\<close>

definition Put :: "int \<Rightarrow> client \<Rightarrow> pool \<Rightarrow> pool \<times> client list" where
  "Put now conn p =
     (if LastCritical conn = None then
        (if length (pool_ch p) < pool_cap p then
           (let p1 = p\<lparr>pool_ch := pool_ch p @ [conn]\<rparr> in
            if secondaryActive p1 + waitForReuse < now then
              (case secondaryPool p1 of
                 c # cs \<Rightarrow> (p1\<lparr>secondaryPool := cs, active := wrap32 (active p1 - 1)\<rparr>, [c])
               | [] \<Rightarrow> (p1\<lparr>secondaryActive := now\<rparr>, []))
            else (p1, []))
         else if length (secondaryPool p) < secondary_cap p then
           (p\<lparr>secondaryPool := secondaryPool p @ [conn]\<rparr>, [])
         else (p\<lparr>active := wrap32 (active p - 1)\<rparr>, [conn]))
      else (p\<lparr>active := wrap32 (active p - 1)\<rparr>, []))"

text \<open>\<open>Empty\<close>: stop the ticker once, then receive from \<open>p.pool\<close> and close until it is
  empty.  It returns the pool and the connections closed.\<close>

fun Empty_loop :: "client list \<Rightarrow> client list \<Rightarrow> client list \<times> client list" where
  "Empty_loop [] closed = ([], closed)"
| "Empty_loop (c # cs) closed = Empty_loop cs (closed @ [c])"

definition Empty :: "pool \<Rightarrow> pool \<times> client list" where
  "Empty p =
     (let (ch, closed) = Empty_loop (pool_ch p) []
      in (p\<lparr>stopped := True, pool_ch := ch\<rparr>, closed))"

definition Avail :: "pool \<Rightarrow> nat" where
  "Avail p = length (pool_ch p)"

subsection \<open>Sequences of pool operations\<close>





section \<open>The cluster\<close>

subsection \<open>Strings and replies\<close>

text \<open>\<open>strings.Index\<close> for a one-byte separator: the first index, or \<open>-1\<close>.\<close>

fun Index :: "string \<Rightarrow> char \<Rightarrow> int" where
  "Index [] ch = - 1"
| "Index (x # xs) ch =
     (if x = ch then 0 else (let i = Index xs ch in if i < 0 then - 1 else i + 1))"

text \<open>Go's slice expressions \<open>s[a:]\<close> and \<open>s[a:b]\<close> panic out of bounds.\<close>

definition slice_from :: "string \<Rightarrow> int \<Rightarrow> go_panic + string" where
  "slice_from s a =
     (if 0 \<le> a \<and> a \<le> int (length s) then Inr (drop (nat a) s) else Inl SliceBounds)"

definition slice :: "string \<Rightarrow> int \<Rightarrow> int \<Rightarrow> go_panic + string" where
  "slice s a b =
     (if 0 \<le> a \<and> a \<le> b \<and> b \<le> int (length s)
      then Inr (take (nat b - nat a) (drop (nat a) s)) else Inl SliceBounds)"

text \<open>\<open>strings.Split(msg, " ")\<close>.\<close>

fun Split :: "string \<Rightarrow> string \<Rightarrow> string list" where
  "Split [] cur = [cur]"
| "Split (x # xs) cur = (if x = CHR '' '' then cur # Split xs [] else Split xs (cur @ [x]))"

text \<open>\<open>strings.HasPrefix\<close>.\<close>

definition HasPrefix :: "string \<Rightarrow> string \<Rightarrow> bool" where
  "HasPrefix s pre = (take (length pre) s = pre)"

text \<open>\<open>strconv.Itoa\<close> and \<open>strconv.Atoi\<close> (decimal, optional sign, 64-bit range).\<close>

definition digit_char :: "nat \<Rightarrow> char" where
  "digit_char d = ''0123456789'' ! d"

function digits :: "nat \<Rightarrow> string" where
  "digits n = (if n < 10 then [digit_char n] else digits (n div 10) @ [digit_char (n mod 10)])"
  by pat_completeness auto
termination
  by (relation "measure id") auto

definition Itoa :: "int \<Rightarrow> string" where
  "Itoa i = (if i < 0 then CHR ''-'' # digits (nat (- i)) else digits (nat i))"

definition digit_val :: "char \<Rightarrow> nat option" where
  "digit_val ch =
     map_of [(CHR ''0'', 0), (CHR ''1'', 1), (CHR ''2'', 2), (CHR ''3'', 3), (CHR ''4'', 4),
             (CHR ''5'', 5), (CHR ''6'', 6), (CHR ''7'', 7), (CHR ''8'', 8), (CHR ''9'', 9)] ch"

fun parse_digits :: "string \<Rightarrow> nat \<Rightarrow> nat option" where
  "parse_digits [] acc = Some acc"
| "parse_digits (x # xs) acc =
     (case digit_val x of None \<Rightarrow> None | Some d \<Rightarrow> parse_digits xs (10 * acc + d))"

definition Atoi :: "string \<Rightarrow> int option" where
  "Atoi s =
     (let (neg, ds) =
            (case s of
               x # xs \<Rightarrow> if x = CHR ''-'' then (True, xs)
                          else if x = CHR ''+'' then (False, xs) else (False, s)
             | [] \<Rightarrow> (False, s))
      in if ds = [] then None
         else (case parse_digits ds 0 of
                 None \<Rightarrow> None
               | Some n \<Rightarrow>
                   let v = (if neg then - int n else int n)
                   in if - 9223372036854775808 \<le> v \<and> v \<le> 9223372036854775807
                      then Some v else None))"

text \<open>
  Modelled from the spec: the response type of the redis package, which is not among the
  sources.  A response is an integer, a string, an array, an application error with the
  server's message, an I/O error, or an error response made by \<open>errorResp\<close>; \<open>Array\<close>,
  \<open>Int\<close> and \<open>Str\<close> fail on a response of another kind.
\<close>

datatype resp =
    IntResp int
  | StrResp string
  | ArrayResp "resp list"
  | AppErrResp string
  | IOErrResp string
  | errorResp error

definition Err :: "resp \<Rightarrow> error option" where
  "Err r =
     (case r of
        AppErrResp m \<Rightarrow> Some (OtherErr m)
      | IOErrResp m \<Rightarrow> Some (OtherErr m)
      | errorResp e \<Rightarrow> Some e
      | _ \<Rightarrow> None)"

definition IsIOErr :: "resp \<Rightarrow> bool" where
  "IsIOErr r = (case r of IOErrResp m \<Rightarrow> True | _ \<Rightarrow> False)"

definition errMsg :: "error \<Rightarrow> string" where
  "errMsg e =
     (case e of
        OtherErr m \<Rightarrow> m
      | ErrIllegalArgument \<Rightarrow> ''redis pool: bad arguments''
      | ErrPoolExhausted \<Rightarrow> ''redis: connection pool exhausted''
      | ErrBadCmdNoKey \<Rightarrow> ''bad command, no key''
      | errNoPools \<Rightarrow> ''no pools to pull from'')"

definition typeErr :: error where
  "typeErr = OtherErr ''wrong response type''"

definition Array_resp :: "resp \<Rightarrow> error + resp list" where
  "Array_resp r =
     (case r of ArrayResp xs \<Rightarrow> Inr xs
      | _ \<Rightarrow> (case Err r of Some e \<Rightarrow> Inl e | None \<Rightarrow> Inl typeErr))"

definition Int_resp :: "resp \<Rightarrow> error + int" where
  "Int_resp r =
     (case r of IntResp i \<Rightarrow> Inr i
      | _ \<Rightarrow> (case Err r of Some e \<Rightarrow> Inl e | None \<Rightarrow> Inl typeErr))"

definition Str_resp :: "resp \<Rightarrow> error + string" where
  "Str_resp r =
     (case r of StrResp s \<Rightarrow> Inr s
      | _ \<Rightarrow> (case Err r of Some e \<Rightarrow> Inl e | None \<Rightarrow> Inl typeErr))"

text \<open>Indexing a Go slice panics out of range.\<close>

definition at :: "'a list \<Rightarrow> nat \<Rightarrow> go_panic + 'a" where
  "at xs i = (if i < length xs then Inr (xs ! i) else Inl IndexOutOfRange)"

subsection \<open>State, environment and trace\<close>

text \<open>
  What the cluster does to the outside is recorded as events: a pool constructed, a
  connection borrowed from or put back into the pool registered under an address, a
  connection closed, a pool emptied, a command sent on a connection, and the two
  signals.
\<close>

datatype event =
    EvNewPool string
  | EvGet string "error + client"
  | EvPut string client
  | EvClose client
  | EvEmpty string
  | EvCmd client "string list"
  | EvMiss
  | EvChange

text \<open>
  The cluster: the slot array (an index outside \<open>0..<numSlots\<close> panics, see
  \<open>setSlots\<close> and \<open>setSlot\<close>), the pool registry (a Go map: a list of pairs with
  distinct keys, in the order in which \<open>range\<close> happens to visit them), and whether the
  throttle ticker exists.  \<open>clock\<close> counts the questions asked to the environment and
  \<open>events\<close> is the trace.
\<close>

definition numSlots :: nat where
  "numSlots = 16384"

record cluster =
  mapping :: "nat \<Rightarrow> string"
  pools :: "(string \<times> pool) list"
  resetThrottle :: bool
  clock :: nat
  events :: "event list"

text \<open>
  The environment answers, at each clock value: the time, what dialing an address gives,
  what constructing a pool for an address gives (\<open>pool.NewCustom\<close> as imported by the
  cluster package takes four arguments and is not the constructor above), which pool
  \<open>range\<close> yields first, whether the throttle has a token, and what the server replies.
  \<open>CRC16\<close> is in a file that is not among the sources.
\<close>

record env =
  e_now :: "nat \<Rightarrow> int"
  e_dial :: "nat \<Rightarrow> string \<Rightarrow> error + client"
  e_newPool :: "nat \<Rightarrow> string \<Rightarrow> error + pool"
  e_rnd :: "nat \<Rightarrow> nat"
  e_token :: "nat \<Rightarrow> bool"
  e_cmd :: "nat \<Rightarrow> client \<Rightarrow> string list \<Rightarrow> resp"
  CRC16 :: "string \<Rightarrow> nat"

definition tick :: "cluster \<Rightarrow> cluster" where
  "tick c = c\<lparr>clock := Suc (clock c)\<rparr>"

definition emit :: "event list \<Rightarrow> cluster \<Rightarrow> cluster" where
  "emit evs c = c\<lparr>events := events c @ evs\<rparr>"

text \<open>A pool is a pointer: a method that changes it changes the registry's entry.\<close>

definition store :: "string \<Rightarrow> pool \<Rightarrow> (string \<times> pool) list \<Rightarrow> (string \<times> pool) list" where
  "store k p ps = map (\<lambda>(k', q). if k' = k then (k', p) else (k', q)) ps"

definition newPool :: "env \<Rightarrow> string \<Rightarrow> cluster \<Rightarrow> (error + pool) \<times> cluster" where
  "newPool E addr c =
     ((case e_newPool E (clock c) addr of
         Inl e \<Rightarrow> Inl e
       | Inr p \<Rightarrow> Inr (p\<lparr>Network := ''tcp'', Addr := addr\<rparr>)),
      emit [EvNewPool addr] (tick c))"

text \<open>\<open>p.Get()\<close> on the pool registered under \<open>k\<close>.\<close>

definition regGet ::
  "env \<Rightarrow> string \<Rightarrow> pool \<Rightarrow> cluster \<Rightarrow> (error + client) \<times> pool \<times> cluster" where
  "regGet E k p c =
     (let (r, p') = Get (e_now E (clock c)) (e_dial E (clock c) (Addr p)) p
      in (r, p', emit [EvGet k r] (tick (c\<lparr>pools := store k p' (pools c)\<rparr>))))"

definition getRandomPoolInner :: "env \<Rightarrow> cluster \<Rightarrow> (string \<times> pool) option" where
  "getRandomPoolInner E c =
     (if pools c = [] then None
      else Some (pools c ! (e_rnd E (clock c) mod length (pools c))))"

subsection \<open>Routing\<close>

definition hashTag :: "string \<Rightarrow> go_panic + string" where
  "hashTag key =
     (let start = Index key CHR ''{'' in
      if 0 \<le> start then
        (case slice_from key (start + 2) of
           Inl pn \<Rightarrow> Inl pn
         | Inr rest \<Rightarrow>
             (let en = Index rest CHR ''}'' in
              if 0 \<le> en then slice key (start + 1) (start + 2 + en) else Inr key))
      else Inr key)"

definition addrForKeyInner :: "env \<Rightarrow> cluster \<Rightarrow> string \<Rightarrow> go_panic + string" where
  "addrForKeyInner E c key =
     (case hashTag key of
        Inl pn \<Rightarrow> Inl pn
      | Inr k \<Rightarrow> Inr (mapping c (CRC16 E k mod numSlots)))"

text \<open>
  \<open>getConn\<close>: the closure run by the actor.  A pool made for an address that has none is
  held in the local \<open>p\<close> only.
\<close>

definition getConn_random :: "env \<Rightarrow> cluster \<Rightarrow> (error + client) \<times> cluster" where
  "getConn_random E c =
     (case getRandomPoolInner E c of
        None \<Rightarrow> (Inl errNoPools, tick c)
      | Some (k, p) \<Rightarrow> (case regGet E k p (tick c) of (r, p', c1) \<Rightarrow> (r, c1)))"

definition getConn_addr :: "env \<Rightarrow> string \<Rightarrow> cluster \<Rightarrow> (error + client) \<times> cluster" where
  "getConn_addr E addr c =
     (case map_of (pools c) addr of
        Some p \<Rightarrow>
          (case regGet E addr p c of
             (Inr conn, p', c1) \<Rightarrow> (Inr conn, c1)
           | (Inl e, p', c1) \<Rightarrow> getConn_random E c1)
      | None \<Rightarrow>
          (case newPool E addr c of
             (Inl e, c1) \<Rightarrow> getConn_random E c1
           | (Inr p, c1) \<Rightarrow>
               (let (r, p') = Get (e_now E (clock c1)) (e_dial E (clock c1) (Addr p)) p;
                    c2 = emit [EvGet addr r] (tick c1)
                in case r of Inr conn \<Rightarrow> (Inr conn, c2) | Inl e \<Rightarrow> getConn_random E c2)))"

definition getConn ::
  "env \<Rightarrow> string \<Rightarrow> string \<Rightarrow> cluster \<Rightarrow> go_panic + ((error + client) \<times> cluster)" where
  "getConn E key addr c =
     (if key \<noteq> [] then
        (case addrForKeyInner E c key of
           Inl pn \<Rightarrow> Inl pn
         | Inr a \<Rightarrow> Inr (getConn_addr E a c))
      else Inr (getConn_addr E addr c))"

text \<open>\<open>Cluster.Put\<close>.\<close>

definition clusterPut :: "env \<Rightarrow> client \<Rightarrow> cluster \<Rightarrow> cluster" where
  "clusterPut E conn c =
     (case map_of (pools c) (cAddr conn) of
        None \<Rightarrow> emit [EvClose conn] c
      | Some p \<Rightarrow>
          (let (p', closed) = Put (e_now E (clock c)) conn p
           in emit (EvPut (cAddr conn) conn # map EvClose closed)
                (tick (c\<lparr>pools := store (cAddr conn) p' (pools c)\<rparr>))))"

subsection \<open>Reset\<close>

text \<open>A step of \<open>resetInner\<close> panics, returns an error, or goes on.\<close>

datatype 'a outcome = Panic go_panic | Fail error | Ok 'a

definition bindO :: "'a outcome \<Rightarrow> ('a \<Rightarrow> 'b outcome) \<Rightarrow> 'b outcome" where
  "bindO x f = (case x of Panic pn \<Rightarrow> Panic pn | Fail e \<Rightarrow> Fail e | Ok v \<Rightarrow> f v)"

definition liftE :: "error + 'a \<Rightarrow> 'a outcome" where
  "liftE x = (case x of Inl e \<Rightarrow> Fail e | Inr v \<Rightarrow> Ok v)"

definition liftP :: "go_panic + 'a \<Rightarrow> 'a outcome" where
  "liftP x = (case x of Inl pn \<Rightarrow> Panic pn | Inr v \<Rightarrow> Ok v)"

text \<open>One slot group of the reply: \<open>start\<close>, \<open>end\<close> and the address of its master;
  \<open>src\<close> is \<open>p.Addr\<close> of the pool the reply came from.\<close>

definition parseGroup :: "string \<Rightarrow> resp \<Rightarrow> (int \<times> int \<times> string) outcome" where
  "parseGroup src slotGroup =
     bindO (liftE (Array_resp slotGroup)) (\<lambda>slotElems.
     bindO (liftP (at slotElems 0)) (\<lambda>e0.
     bindO (liftE (Int_resp e0)) (\<lambda>start.
     bindO (liftP (at slotElems 1)) (\<lambda>e1.
     bindO (liftE (Int_resp e1)) (\<lambda>en.
     bindO (liftP (at slotElems 2)) (\<lambda>e2.
     bindO (liftE (Array_resp e2)) (\<lambda>slotAddrElems.
     bindO (liftP (at slotAddrElems 0)) (\<lambda>a0.
     bindO (liftE (Str_resp a0)) (\<lambda>ip.
     bindO (liftP (at slotAddrElems 1)) (\<lambda>a1.
     bindO (liftE (Int_resp a1)) (\<lambda>port.
       Ok (start, en, if ip = [] then src else ip @ '':'' @ Itoa port))))))))))))"

text \<open>\<open>for i := start; i <= end; i++ { c.mapping[i] = slotAddr }\<close>.\<close>

function setSlots :: "int \<Rightarrow> int \<Rightarrow> string \<Rightarrow> (nat \<Rightarrow> string) \<Rightarrow> go_panic + (nat \<Rightarrow> string)" where
  "setSlots i e a m =
     (if i \<le> e then
        (if 0 \<le> i \<and> i < 16384 then setSlots (i + 1) e a (m(nat i := a))
         else Inl IndexOutOfRange)
      else Inr m)"
  by pat_completeness auto
termination
  by (relation "measure (\<lambda>(i, e, a, m). nat (e + 1 - i))") auto

text \<open>The loop over the slot groups; \<open>npools\<close> is the local \<open>pools\<close>.\<close>

fun resetLoop ::
  "env \<Rightarrow> string \<Rightarrow> resp list \<Rightarrow> (string \<times> pool) list \<Rightarrow> bool \<Rightarrow> cluster
   \<Rightarrow> go_panic + ((error + ((string \<times> pool) list \<times> bool)) \<times> cluster)" where
  "resetLoop E src [] npools changed c = Inr (Inr (npools, changed), c)"
| "resetLoop E src (g # gs) npools changed c =
     (case parseGroup src g of
        Panic pn \<Rightarrow> Inl pn
      | Fail e \<Rightarrow> Inr (Inl e, c)
      | Ok (start, en, slotAddr) \<Rightarrow>
          (case setSlots start en slotAddr (mapping c) of
             Inl pn \<Rightarrow> Inl pn
           | Inr m \<Rightarrow>
               (let c1 = c\<lparr>mapping := m\<rparr> in
                case map_of (pools c1) slotAddr of
                  Some slotPool \<Rightarrow>
                    resetLoop E src gs (AList.update slotAddr slotPool npools) changed c1
                | None \<Rightarrow>
                    (case newPool E slotAddr c1 of
                       (Inl e, c2) \<Rightarrow> Inr (Inl e, c2)
                     | (Inr slotPool, c2) \<Rightarrow>
                         resetLoop E src gs (AList.update slotAddr slotPool npools) True c2))))"

text \<open>The loop over the old registry.\<close>

fun emptyDropped ::
  "(string \<times> pool) list \<Rightarrow> (string \<times> pool) list \<Rightarrow> bool \<Rightarrow> cluster \<Rightarrow> bool \<times> cluster" where
  "emptyDropped [] npools changed c = (changed, c)"
| "emptyDropped ((addr, p) # rest) npools changed c =
     (if map_of npools addr = None then
        (let (p', closed) = Empty p
         in emptyDropped rest npools True (emit (EvEmpty addr # map EvClose closed) c))
      else emptyDropped rest npools changed c)"

definition resetInner :: "env \<Rightarrow> cluster \<Rightarrow> go_panic + (error option \<times> cluster)" where
  "resetInner E c0 =
     (let c = tick (c0\<lparr>resetThrottle := True\<rparr>) in
      if resetThrottle c0 \<and> \<not> e_token E (clock c0) then Inr (None, c)
      else
        (case getRandomPoolInner E c of
           None \<Rightarrow> Inr (Some (OtherErr ''no available nodes to call CLUSTER SLOTS on''), tick c)
         | Some (k, p) \<Rightarrow>
             (case regGet E k p (tick c) of
                (Inl e, p', c1) \<Rightarrow> Inr (Some e, c1)
              | (Inr cl, p', c1) \<Rightarrow>
                  (let reply = e_cmd E (clock c1) cl [''CLUSTER'', ''SLOTS''];
                       c2 = emit [EvCmd cl [''CLUSTER'', ''SLOTS'']] (tick c1)
                   in case Array_resp reply of
                        Inl e \<Rightarrow> Inr (Some e, emit [EvClose cl] c2)
                      | Inr elems \<Rightarrow>
                          if elems = [] then
                            Inr (Some (OtherErr ''empty CLUSTER SLOTS response''),
                                 emit [EvClose cl] c2)
                          else
                            (case resetLoop E (Addr p) elems [(Addr p, p')] False c2 of
                               Inl pn \<Rightarrow> Inl pn
                             | Inr (Inl e, c3) \<Rightarrow> Inr (Some e, emit [EvClose cl] c3)
                             | Inr (Inr (npools, changed), c3) \<Rightarrow>
                                 (let (changed', c4) = emptyDropped (pools c3) npools changed c3;
                                      c5 = c4\<lparr>pools := npools\<rparr>;
                                      c6 = (if changed' then emit [EvChange] c5 else c5)
                                  in Inr (None, emit [EvClose cl] c6)))))))"

text \<open>
  The master addresses of a \<open>CLUSTER SLOTS\<close> reply as the specification words them: each
  entry is \<open>[start, end, [ip, port, ...], ...]\<close>, and an empty \<open>ip\<close> stands for the node
  the reply was obtained from.
\<close>

fun masterAddr :: "string \<Rightarrow> resp \<Rightarrow> string option" where
  "masterAddr src (ArrayResp (IntResp s # IntResp e # ArrayResp (StrResp ip # IntResp port # ids) # replicas)) =
     Some (if ip = [] then src else ip @ '':'' @ Itoa port)"
| "masterAddr src r = None"

definition masterAddrs :: "string \<Rightarrow> resp list \<Rightarrow> string set" where
  "masterAddrs src elems = {a. \<exists>g \<in> set elems. masterAddr src g = Some a}"

subsection \<open>The retry loop of Cmd\<close>

definition justTried :: "string list \<Rightarrow> string \<Rightarrow> string list" where
  "justTried tried addr = (if addr \<in> set tried then tried else tried @ [addr])"

definition haveTried :: "string list \<Rightarrow> string \<Rightarrow> bool" where
  "haveTried tried addr = (addr \<in> set tried)"

definition redirectInfo :: "string \<Rightarrow> go_panic + (int \<times> string)" where
  "redirectInfo msg =
     (let parts = Split msg [] in
      case at parts 1 of
        Inl pn \<Rightarrow> Inl pn
      | Inr slotStr \<Rightarrow>
          (case Atoi slotStr of
             None \<Rightarrow> Inl AtoiPanic
           | Some slot \<Rightarrow>
               (case at parts 2 of Inl pn \<Rightarrow> Inl pn | Inr addr \<Rightarrow> Inr (slot, addr))))"

text \<open>\<open>c.mapping[slot] = addr\<close>.\<close>

definition setSlot :: "int \<Rightarrow> string \<Rightarrow> (nat \<Rightarrow> string) \<Rightarrow> go_panic + (nat \<Rightarrow> string)" where
  "setSlot slot addr m =
     (if 0 \<le> slot \<and> slot < 16384 then Inr (m(nat slot := addr)) else Inl IndexOutOfRange)"

text \<open>What one attempt decides: return a response, or call \<open>clientCmd\<close> again with a
  client, \<open>ask\<close>, \<open>tried\<close> and \<open>haveReset\<close>.\<close>

datatype decision = Return resp | Again client bool "string list" bool

text \<open>\<open>Reset\<close>, then a client from any pool: the second rung after an I/O error, which
  passes \<open>tried\<close> on.\<close>

definition io_reset ::
  "env \<Rightarrow> cluster \<Rightarrow> resp \<Rightarrow> string list \<Rightarrow> bool \<Rightarrow> go_panic + (decision \<times> cluster)" where
  "io_reset E c r tried haveReset =
     (if \<not> haveReset then
        (case resetInner E c of
           Inl pn \<Rightarrow> Inl pn
         | Inr (Some resetErr, c1) \<Rightarrow>
             Inr (Return (errorResp (OtherErr (''Could not get cluster info: '' @ errMsg resetErr))), c1)
         | Inr (None, c1) \<Rightarrow>
             (case getConn E [] [] c1 of
                Inl pn \<Rightarrow> Inl pn
              | Inr (Inl getErr, c2) \<Rightarrow> Inr (Return (errorResp getErr), c2)
              | Inr (Inr cl, c2) \<Rightarrow> Inr (Again cl False tried True, c2)))
      else Inr (Return r, c))"

text \<open>The same after a redirection to an address already tried, which passes \<open>nil\<close>.\<close>

definition moved_reset ::
  "env \<Rightarrow> cluster \<Rightarrow> bool \<Rightarrow> go_panic + (decision \<times> cluster)" where
  "moved_reset E c haveReset =
     (if haveReset then Inr (Return (errorResp (OtherErr ''Cluster doesn't make sense'')), c)
      else
        (case resetInner E c of
           Inl pn \<Rightarrow> Inl pn
         | Inr (Some resetErr, c1) \<Rightarrow>
             Inr (Return (errorResp (OtherErr (''Could not get cluster info: '' @ errMsg resetErr))), c1)
         | Inr (None, c1) \<Rightarrow>
             (case getConn E [] [] c1 of
                Inl pn \<Rightarrow> Inl pn
              | Inr (Inl getErr, c2) \<Rightarrow>
                  Inr (Return (errorResp (OtherErr (''No available cluster nodes: '' @ errMsg getErr))), c2)
              | Inr (Inr cl, c2) \<Rightarrow> Inr (Again cl False [] True, c2))))"

text \<open>Everything of \<open>clientCmd\<close> after \<open>r.Err\<close> was found to be \<open>err\<close>.\<close>

definition dispatch ::
  "env \<Rightarrow> cluster \<Rightarrow> client \<Rightarrow> resp \<Rightarrow> error \<Rightarrow> string list \<Rightarrow> bool
   \<Rightarrow> go_panic + (decision \<times> cluster)" where
  "dispatch E c client r err tried0 haveReset =
     (let haveTriedBefore = haveTried tried0 (cAddr client);
          tried = justTried tried0 (cAddr client)
      in
      if IsIOErr r then
        (if \<not> haveTriedBefore then
           (case getConn E [] (cAddr client) c of
              Inl pn \<Rightarrow> Inl pn
            | Inr (Inr cl, c1) \<Rightarrow> Inr (Again cl False tried haveReset, c1)
            | Inr (Inl try2err, c1) \<Rightarrow> io_reset E c1 r tried haveReset)
         else io_reset E c r tried haveReset)
      else
        (let msg = errMsg err;
             moved = HasPrefix msg ''MOVED '';
             ask = HasPrefix msg ''ASK ''
         in
         if moved \<or> ask then
           (case redirectInfo msg of
              Inl pn \<Rightarrow> Inl pn
            | Inr (slot, addr) \<Rightarrow>
                (let c1 = emit [EvMiss] c in
                 if haveTried tried addr then moved_reset E c1 haveReset
                 else
                   (case (if moved then setSlot slot addr (mapping c1) else Inr (mapping c1)) of
                      Inl pn \<Rightarrow> Inl pn
                    | Inr m \<Rightarrow>
                        (case getConn E [] addr (c1\<lparr>mapping := m\<rparr>) of
                           Inl pn \<Rightarrow> Inl pn
                         | Inr (Inl getErr, c2) \<Rightarrow> Inr (Return (errorResp getErr), c2)
                         | Inr (Inr cl, c2) \<Rightarrow> Inr (Again cl ask tried haveReset, c2)))))
         else Inr (Return r, c)))"

text \<open>The commands of one attempt: \<open>ASKING\<close> first when \<open>ask\<close> is set, then the command
  unless \<open>ASKING\<close> failed.\<close>

definition sendCmd :: "env \<Rightarrow> client \<Rightarrow> string list \<Rightarrow> cluster \<Rightarrow> resp \<times> cluster" where
  "sendCmd E client args c = (e_cmd E (clock c) client args, emit [EvCmd client args] (tick c))"

definition attempt ::
  "env \<Rightarrow> cluster \<Rightarrow> client \<Rightarrow> string list \<Rightarrow> bool \<Rightarrow> string list \<Rightarrow> bool
   \<Rightarrow> go_panic + (decision \<times> cluster)" where
  "attempt E c client args ask tried haveReset =
     (let (r, c2) =
            (if ask then
               (case sendCmd E client [''ASKING''] c of
                  (ra, c1) \<Rightarrow> if Err ra = None then sendCmd E client args c1 else (ra, c1))
             else sendCmd E client args c)
      in case Err r of
           None \<Rightarrow> Inr (Return r, c2)
         | Some err \<Rightarrow> dispatch E c2 client r err tried haveReset)"

text \<open>
  \<open>clientCmd\<close> calls itself with no bound of its own (the server may redirect to a new
  address each time), so the model takes fuel: \<open>None\<close> is "no answer within this many
  attempts".  The deferred \<open>c.Put(client)\<close> runs when the call returns; the client is
  put back with the \<open>LastCritical\<close> it was handed in with, since what a failed command
  writes there is decided in the redis package.
\<close>

fun clientCmd ::
  "nat \<Rightarrow> env \<Rightarrow> cluster \<Rightarrow> client \<Rightarrow> string list \<Rightarrow> bool \<Rightarrow> string list \<Rightarrow> bool
   \<Rightarrow> go_panic + (resp option \<times> cluster)" where
  "clientCmd 0 E c client args ask tried haveReset = Inr (None, c)"
| "clientCmd (Suc n) E c client args ask tried haveReset =
     (case attempt E c client args ask tried haveReset of
        Inl pn \<Rightarrow> Inl pn
      | Inr (Return r, c1) \<Rightarrow> Inr (Some r, clusterPut E client c1)
      | Inr (Again cl ask' tried' haveReset', c1) \<Rightarrow>
          (case clientCmd n E c1 cl args ask' tried' haveReset' of
             Inl pn \<Rightarrow> Inl pn
           | Inr (res, c2) \<Rightarrow> Inr (res, clusterPut E client c2)))"

subsection \<open>GetEvery\<close>

fun GetEvery_loop ::
  "env \<Rightarrow> (string \<times> pool) list \<Rightarrow> (string \<times> client) list \<Rightarrow> cluster
   \<Rightarrow> (error + (string \<times> client) list) \<times> cluster" where
  "GetEvery_loop E [] m c = (Inr m, c)"
| "GetEvery_loop E ((addr, p) # rest) m c =
     (case regGet E addr p c of
        (Inl e, p', c1) \<Rightarrow> (Inl e, c1)
      | (Inr cl, p', c1) \<Rightarrow> GetEvery_loop E rest (AList.update addr cl m) c1)"

definition GetEvery :: "env \<Rightarrow> cluster \<Rightarrow> (error + (string \<times> client) list) \<times> cluster" where
  "GetEvery E c = GetEvery_loop E (pools c) [] c"

subsection \<open>Concrete inputs\<close>

definition conn1 :: client where
  "conn1 = \<lparr>cid = 1, cAddr = ''10.0.0.1:6379'', LastCritical = None\<rparr>"

definition conn2 :: client where
  "conn2 = \<lparr>cid = 2, cAddr = ''10.0.0.1:6379'', LastCritical = None\<rparr>"

definition badconn :: client where
  "badconn = \<lparr>cid = 3, cAddr = ''10.0.0.1:6379'', LastCritical = Some (OtherErr ''EOF'')\<rparr>"

text \<open>The pool that \<open>NewCustom\<close> builds for size 1 and maxActive 1 when the dial gives
  \<open>conn1\<close> (lemma \<open>pool11_built\<close>).\<close>

definition pool11 :: pool where
  "pool11 = \<lparr>pool_ch = [conn1], pool_cap = 1, secondaryPool = [], secondary_cap = 0,
             secondaryActive = 0, active = 1, maxActive = 1, stopped = False,
             Network = ''tcp'', Addr = ''10.0.0.1:6379''\<rparr>"

text \<open>Two registered pools: \<open>pool11\<close>, and one whose only connection is checked
  out.\<close>

definition poolB :: pool where
  "poolB = \<lparr>pool_ch = [], pool_cap = 1, secondaryPool = [], secondary_cap = 0,
            secondaryActive = 0, active = 1, maxActive = 1, stopped = False,
            Network = ''tcp'', Addr = ''10.0.0.2:6379''\<rparr>"

definition pool_fresh :: pool where
  "pool_fresh = \<lparr>pool_ch = [], pool_cap = 1, secondaryPool = [], secondary_cap = 0,
            secondaryActive = 0, active = 0, maxActive = 1, stopped = False,
            Network = ''tcp'', Addr = []\<rparr>"

text \<open>A reply of \<open>CLUSTER SLOTS\<close>: slots 0 and 1 on the node asked, slots 2 and 3 on
  \<open>10.0.0.9:6379\<close>.\<close>

definition slotsReply :: resp where
  "slotsReply = ArrayResp
     [ArrayResp [IntResp 0, IntResp 1, ArrayResp [StrResp [], IntResp 6379]],
      ArrayResp [IntResp 2, IntResp 3, ArrayResp [StrResp ''10.0.0.9'', IntResp 6379]]]"

text \<open>An environment: every dial and every pool construction succeeds, \<open>range\<close> yields
  the first pool, the throttle has a token, and the server answers \<open>CLUSTER SLOTS\<close>
  with \<open>slotsReply\<close> and anything else with \<open>OK\<close>.  Its stand-in for \<open>CRC16\<close> is the
  length of the key.\<close>

definition env0 :: env where
  "env0 = \<lparr>e_now = (\<lambda>n. 0),
            e_dial = (\<lambda>n a. Inr \<lparr>cid = 100 + n, cAddr = a, LastCritical = None\<rparr>),
            e_newPool = (\<lambda>n a. Inr pool_fresh),
            e_rnd = (\<lambda>n. 0),
            e_token = (\<lambda>n. True),
            e_cmd = (\<lambda>n cl args. if args = [''CLUSTER'', ''SLOTS''] then slotsReply
                                   else StrResp ''OK''),
            CRC16 = length\<rparr>"

definition cluster0 :: cluster where
  "cluster0 = \<lparr>mapping = (\<lambda>i. []),
                pools = [(''10.0.0.1:6379'', pool11), (''10.0.0.2:6379'', poolB)],
                resetThrottle = False, clock = 0, events = []\<rparr>"

text \<open>A reply that names a single master, \<open>10.0.0.9:6379\<close>, an environment whose server
  always sends it, and a cluster whose registry holds \<open>pool11\<close> only.\<close>

definition slotsReply2 :: resp where
  "slotsReply2 =
     ArrayResp [ArrayResp [IntResp 0, IntResp 1, ArrayResp [StrResp ''10.0.0.9'', IntResp 6379]]]"

definition env1 :: env where
  "env1 = env0\<lparr>e_cmd := (\<lambda>n cl args. slotsReply2)\<rparr>"

definition cluster1 :: cluster where
  "cluster1 = cluster0\<lparr>pools := [(''10.0.0.1:6379'', pool11)]\<rparr>"

text \<open>A cluster as it is during a \<open>Cmd\<close>: one pool, whose connection \<open>conn1\<close> is
  checked out and which may dial two more; the throttle exists.  In \<open>env2\<close> a pool for
  the empty address cannot be built; in \<open>env3\<close> moreover the node \<open>10.0.0.1:6379\<close>
  answers every command with \<open>MOVED 7000 10.0.0.9:6379\<close>.\<close>

definition poolC :: pool where
  "poolC = \<lparr>pool_ch = [], pool_cap = 1, secondaryPool = [], secondary_cap = 2,
            secondaryActive = 0, active = 1, maxActive = 3, stopped = False,
            Network = ''tcp'', Addr = ''10.0.0.1:6379''\<rparr>"

definition cluster2 :: cluster where
  "cluster2 = \<lparr>mapping = (\<lambda>i. ''10.0.0.1:6379''),
                pools = [(''10.0.0.1:6379'', poolC)],
                resetThrottle = True, clock = 0, events = []\<rparr>"

definition env2 :: env where
  "env2 = env0\<lparr>e_newPool := (\<lambda>n a. if a = [] then Inl (OtherErr ''missing address'')
                                    else Inr pool_fresh)\<rparr>"

definition env3 :: env where
  "env3 = env2\<lparr>e_cmd := (\<lambda>n cl args.
             if cAddr cl = ''10.0.0.1:6379'' then AppErrResp ''MOVED 7000 10.0.0.9:6379''
             else StrResp ''OK'')\<rparr>"

section \<open>Properties of the pool\<close>



lemma Empty_loop_eq: "Empty_loop xs acc = ([], acc @ xs)"
  by (induction xs arbitrary: acc) auto

lemma Empty_eq: "Empty p = (p\<lparr>stopped := True, pool_ch := []\<rparr>, pool_ch p)"
  by (simp add: Empty_def Empty_loop_eq)




text \<open>
  C9, at the failing input.  With \<open>size = 0\<close> and \<open>maxActive = 5\<close> \<open>NewCustom\<close> returns
  an empty pool and no error, but the goroutine it started divides
  \<open>5 * time.Minute\<close> by \<open>time.Duration(0)\<close>: a run-time panic, which ends the process.
\<close>

theorem NewCustom_size_zero_probe_panics:
  "\<exists>p. NewCustom network addr 0 5 dial now = Built p None (Inl DivideByZero)
       \<and> pool_cap p = 0 \<and> maxActive p = 5 \<and> active p = 0"
  by (simp add: NewCustom_def tickPeriod_def Let_def wrap32_def)

text \<open>
  C8 as stated fails: after \<open>Empty\<close> on the pool of size 1, a \<open>Put\<close> of a healthy
  connection stores it in the primary tier; nothing is closed and \<open>active\<close> stays 1.
\<close>

theorem Put_after_Empty_counterexample:
  "Put 0 conn2 (fst (Empty pool11)) = (pool11\<lparr>stopped := True, pool_ch := [conn2]\<rparr>, [])"
  by (simp add: Empty_eq Put_def pool11_def conn2_def waitForReuse_def Let_def)

text \<open>
  C8, as the code has it.  \<open>Empty\<close> closes the connections idle in the primary tier and
  leaves the secondary tier alone, and \<open>Put\<close> does not look at the stop signal.  After
  \<open>Empty\<close>, a \<open>Put\<close> of a connection with a critical error only counts it off; a healthy
  connection is stored in the primary tier when that has capacity (the only connection
  \<open>Put\<close> may close then is one drained from the secondary tier), else in the secondary
  tier when that has room, and it is closed and counted off only when neither has room.
\<close>

theorem Put_after_Empty:
  assumes "Empty p = (p', closed)"
  shows "closed = pool_ch p \<and> pool_ch p' = [] \<and> secondaryPool p' = secondaryPool p
     \<and> (LastCritical c \<noteq> None \<longrightarrow> Put now c p' = (p'\<lparr>active := wrap32 (active p' - 1)\<rparr>, []))
     \<and> (LastCritical c = None \<longrightarrow> 0 < pool_cap p \<longrightarrow>
          pool_ch (fst (Put now c p')) = [c]
          \<and> active (fst (Put now c p')) =
              (if snd (Put now c p') = [] then active p' else wrap32 (active p' - 1))
          \<and> set (snd (Put now c p')) \<subseteq> set (secondaryPool p))
     \<and> (LastCritical c = None \<longrightarrow> pool_cap p = 0 \<longrightarrow>
          length (secondaryPool p) < secondary_cap p \<longrightarrow>
          Put now c p' = (p'\<lparr>secondaryPool := secondaryPool p @ [c]\<rparr>, []))
     \<and> (LastCritical c = None \<longrightarrow> pool_cap p = 0 \<longrightarrow>
          secondary_cap p \<le> length (secondaryPool p) \<longrightarrow>
          Put now c p' = (p'\<lparr>active := wrap32 (active p' - 1)\<rparr>, [c]))"
  using assms
  apply (simp add: Empty_eq)
  apply (auto simp add: Put_def Let_def split: list.splits)
  done

theorem Put_after_Empty_witness:
  "Empty pool11 = (pool11\<lparr>stopped := True, pool_ch := []\<rparr>, [conn1])
   \<and> pool_ch (fst (Put 0 conn2 (pool11\<lparr>stopped := True, pool_ch := []\<rparr>))) = [conn2]
   \<and> Put 0 badconn (pool11\<lparr>stopped := True, pool_ch := []\<rparr>)
       = (pool11\<lparr>stopped := True, pool_ch := [], active := 0\<rparr>, [])"
proof -
  have e: "Empty pool11 = (pool11\<lparr>stopped := True, pool_ch := []\<rparr>, [conn1])"
    by (simp add: Empty_eq pool11_def)
  have h: "LastCritical conn2 = None" "0 < pool_cap pool11" "LastCritical badconn \<noteq> None"
    by (simp_all add: conn2_def pool11_def badconn_def)
  have a: "wrap32 (active (pool11\<lparr>stopped := True, pool_ch := []\<rparr>) - 1) = 0"
    by (simp add: pool11_def wrap32_def)
  from Put_after_Empty [OF e, of conn2 0] h
  have "pool_ch (fst (Put 0 conn2 (pool11\<lparr>stopped := True, pool_ch := []\<rparr>))) = [conn2]"
    by simp
  moreover from Put_after_Empty [OF e, of badconn 0] h a
  have "Put 0 badconn (pool11\<lparr>stopped := True, pool_ch := []\<rparr>)
          = (pool11\<lparr>stopped := True, pool_ch := [], active := 0\<rparr>, [])"
    by simp
  ultimately show ?thesis using e by simp
qed











section \<open>Properties of the cluster\<close>









lemma store_keys: "map fst (store k p ps) = map fst ps"
  by (induction ps) (auto simp add: store_def)

lemma regGet_facts:
  assumes "regGet E k p c = (r, p', c')"
  shows "events c' = events c @ [EvGet k r]" and "mapping c' = mapping c"
    and "map fst (pools c') = map fst (pools c)" and "clock c' = Suc (clock c)"
    and "resetThrottle c' = resetThrottle c"
  using assms
  by (auto simp add: regGet_def emit_def tick_def store_keys split: prod.splits)

lemma newPool_facts:
  assumes "newPool E a c = (r, c')"
  shows "events c' = events c @ [EvNewPool a]" and "mapping c' = mapping c"
    and "pools c' = pools c"
  using assms by (auto simp add: newPool_def emit_def tick_def)

lemma getConn_random_facts:
  assumes "getConn_random E c = (r, c')"
  shows "\<exists>evs. events c' = events c @ evs" and "mapping c' = mapping c"
    and "map fst (pools c') = map fst (pools c)"
proof -
  show "\<exists>evs. events c' = events c @ evs"
    using assms
    by (auto simp add: getConn_random_def tick_def split: option.splits prod.splits
        dest!: regGet_facts(1))
  show "mapping c' = mapping c"
    using assms
    by (auto simp add: getConn_random_def tick_def split: option.splits prod.splits
        dest!: regGet_facts(2))
  show "map fst (pools c') = map fst (pools c)"
    using assms
    by (auto simp add: getConn_random_def tick_def split: option.splits prod.splits
        dest!: regGet_facts(3))
qed

lemma getConn_addr_facts:
  assumes "getConn_addr E a c = (r, c')"
  shows "\<exists>evs. events c' = events c @ evs" and "mapping c' = mapping c"
    and "map fst (pools c') = map fst (pools c)"
proof -
  show "\<exists>evs. events c' = events c @ evs"
    using assms
    by (auto simp add: getConn_addr_def emit_def tick_def Let_def
        split: option.splits prod.splits sum.splits
        dest!: regGet_facts(1) newPool_facts(1) getConn_random_facts(1))
  show "mapping c' = mapping c"
    using assms
    by (auto simp add: getConn_addr_def emit_def tick_def Let_def
        split: option.splits prod.splits sum.splits
        dest!: regGet_facts(2) newPool_facts(2) getConn_random_facts(2))
  show "map fst (pools c') = map fst (pools c)"
    using assms
    by (auto simp add: getConn_addr_def emit_def tick_def Let_def
        split: option.splits prod.splits sum.splits
        dest!: regGet_facts(3) newPool_facts(3) getConn_random_facts(3))
qed


lemma getConn_facts:
  assumes "getConn E key a c = Inr (r, c')"
  shows "\<exists>evs. events c' = events c @ evs" and "mapping c' = mapping c"
    and "map fst (pools c') = map fst (pools c)"
  using assms getConn_addr_facts [of E _ c r c']
  by (auto simp add: getConn_def split: if_splits sum.splits)

lemma GetEvery_loop_error:
  assumes "GetEvery_loop E todo m c = (Inl e, c')"
  shows "\<exists>got k. events c' = events c @ map (\<lambda>(a, cl). EvGet a (Inr cl)) got @ [EvGet k (Inl e)]
           \<and> length got < length todo
           \<and> map fst got = take (length got) (map fst todo)
           \<and> k = fst (todo ! length got)"
  using assms
proof (induction todo arbitrary: m c)
  case Nil
  then show ?case by simp
next
  case (Cons x rest)
  obtain addr p where x: "x = (addr, p)" by (cases x)
  obtain r p' c1 where g: "regGet E addr p c = (r, p', c1)" by (cases "regGet E addr p c")
  note ev = regGet_facts(1) [OF g]
  show ?case
  proof (cases r)
    case (Inl e')
    with Cons.prems g x have "e' = e" "c' = c1" by auto
    with ev Inl x show ?thesis
      by (intro exI [of _ "[]"] exI [of _ addr]) simp
  next
    case (Inr cl)
    with Cons.prems g x have "GetEvery_loop E rest (AList.update addr cl m) c1 = (Inl e, c')"
      by simp
    from Cons.IH [OF this] obtain got k where
      h: "events c' = events c1 @ map (\<lambda>(a, cl). EvGet a (Inr cl)) got @ [EvGet k (Inl e)]"
         "length got < length rest" "map fst got = take (length got) (map fst rest)"
         "k = fst (rest ! length got)"
      by blast
    with ev Inr x show ?thesis
      by (intro exI [of _ "(addr, cl) # got"] exI [of _ k]) simp
  qed
qed

text \<open>
  C10.  When \<open>GetEvery\<close> fails, its result is the error of the \<open>Get\<close> that failed and
  holds no connection; all it did was one successful \<open>Get\<close> on each pool visited before
  (the connections \<open>got\<close>) and the failing \<open>Get\<close>: no connection was put back and none
  was closed, so the connections borrowed stay checked out with nobody holding them.
\<close>

theorem GetEvery_error_leaks_borrowed:
  assumes "GetEvery E c = (Inl e, c')"
  shows "\<exists>got k. events c' = events c @ map (\<lambda>(a, cl). EvGet a (Inr cl)) got @ [EvGet k (Inl e)]
           \<and> length got < length (pools c)
           \<and> map fst got = take (length got) (map fst (pools c))
           \<and> k = fst (pools c ! length got)
           \<and> (\<forall>a cl. EvPut a cl \<notin> set (drop (length (events c)) (events c'))
                    \<and> EvClose cl \<notin> set (drop (length (events c)) (events c')))"
proof -
  from GetEvery_loop_error [OF assms [unfolded GetEvery_def]] obtain got k where
    h: "events c' = events c @ map (\<lambda>(a, cl). EvGet a (Inr cl)) got @ [EvGet k (Inl e)]"
       "length got < length (pools c)" "map fst got = take (length got) (map fst (pools c))"
       "k = fst (pools c ! length got)"
    by blast
  have "\<forall>a cl. EvPut a cl \<notin> set (drop (length (events c)) (events c'))
                    \<and> EvClose cl \<notin> set (drop (length (events c)) (events c'))"
    unfolding h(1) by auto
  with h show ?thesis by blast
qed

lemma GetEvery_demo: "GetEvery env0 cluster0 =
   (Inl ErrPoolExhausted,
    cluster0\<lparr>pools := [(''10.0.0.1:6379'', pool11\<lparr>pool_ch := []\<rparr>), (''10.0.0.2:6379'', poolB)],
             clock := 2,
             events := [EvGet ''10.0.0.1:6379'' (Inr conn1), EvGet ''10.0.0.2:6379'' (Inl ErrPoolExhausted)]\<rparr>)"
  by (simp add: GetEvery_def cluster0_def regGet_def Get_def pool11_def poolB_def env0_def
      store_def emit_def tick_def)

theorem GetEvery_error_leaks_borrowed_witness:
  "fst (GetEvery env0 cluster0) = Inl ErrPoolExhausted
   \<and> (\<exists>got k. events (snd (GetEvery env0 cluster0))
          = events cluster0 @ map (\<lambda>(a, cl). EvGet a (Inr cl)) got @ [EvGet k (Inl ErrPoolExhausted)]
        \<and> length got < length (pools cluster0))"
proof -
  have g: "GetEvery env0 cluster0 = (Inl ErrPoolExhausted, snd (GetEvery env0 cluster0))"
    by (simp add: GetEvery_demo)
  from GetEvery_error_leaks_borrowed [OF g] g show ?thesis
    by (metis fst_conv)
qed

lemma bindO_Ok: "bindO x f = Ok v \<Longrightarrow> \<exists>u. x = Ok u \<and> f u = Ok v"
  by (cases x) (auto simp add: bindO_def)

lemma liftE_Ok: "liftE x = Ok v \<Longrightarrow> x = Inr v"
  by (cases x) (auto simp add: liftE_def)

lemma liftP_Ok: "liftP x = Ok v \<Longrightarrow> x = Inr v"
  by (cases x) (auto simp add: liftP_def)

lemma Int_resp_Inr: "Int_resp r = Inr i \<Longrightarrow> r = IntResp i"
  by (cases r) (auto simp add: Int_resp_def Err_def split: option.splits)

lemma Str_resp_Inr: "Str_resp r = Inr s \<Longrightarrow> r = StrResp s"
  by (cases r) (auto simp add: Str_resp_def Err_def split: option.splits)

lemma Array_resp_Inr: "Array_resp r = Inr xs \<Longrightarrow> r = ArrayResp xs"
  by (cases r) (auto simp add: Array_resp_def Err_def split: option.splits)

lemma at_two:
  assumes "at xs 0 = Inr a" and "at xs 1 = Inr b"
  shows "\<exists>t. xs = a # b # t"
proof (cases xs)
  case Nil
  with assms show ?thesis by (simp add: at_def)
next
  case (Cons x ys)
  with assms show ?thesis by (cases ys) (auto simp add: at_def split: if_splits)
qed

lemma at_three:
  assumes "at xs 0 = Inr a" and "at xs 1 = Inr b" and "at xs 2 = Inr c"
  shows "\<exists>t. xs = a # b # c # t"
proof -
  from at_two [OF assms(1,2)] obtain t where t: "xs = a # b # t" by blast
  with assms(3) show ?thesis by (cases t) (auto simp add: at_def split: if_splits)
qed

lemma parseGroup_masterAddr:
  assumes "parseGroup src g = Ok (s, e, a)"
  shows "masterAddr src g = Some a"
proof -
  from assms [unfolded parseGroup_def]
  obtain slotElems e0 start e1 en e2 slotAddrElems a0 ip a1 port where
    h: "Array_resp g = Inr slotElems" "at slotElems 0 = Inr e0" "Int_resp e0 = Inr start"
       "at slotElems 1 = Inr e1" "Int_resp e1 = Inr en" "at slotElems 2 = Inr e2"
       "Array_resp e2 = Inr slotAddrElems" "at slotAddrElems 0 = Inr a0" "Str_resp a0 = Inr ip"
       "at slotAddrElems 1 = Inr a1" "Int_resp a1 = Inr port"
       "a = (if ip = [] then src else ip @ '':'' @ Itoa port)"
    by (fastforce dest!: bindO_Ok liftE_Ok liftP_Ok)
  from at_three [OF h(2,4,6)] obtain t3 where t: "slotElems = e0 # e1 # e2 # t3" by blast
  from at_two [OF h(8,10)] obtain u2 where u: "slotAddrElems = a0 # a1 # u2" by blast
  have "g = ArrayResp (IntResp start # IntResp en # ArrayResp (StrResp ip # IntResp port # u2) # t3)"
    using h(1,3,5,7,9,11) t u
    by (auto dest!: Array_resp_Inr Int_resp_Inr Str_resp_Inr)
  with h(12) show ?thesis by simp
qed

lemma update_key_set: "fst ` set (AList.update k v al) = insert k (fst ` set al)"
  by (induction al) auto

lemma resetLoop_keys:
  assumes "resetLoop E src elems np ch c = Inr (Inr (np', ch'), c')"
  shows "fst ` set np' = fst ` set np \<union> masterAddrs src elems \<and> pools c' = pools c
         \<and> (\<exists>evs. events c' = events c @ evs)"
  using assms
proof (induction elems arbitrary: np ch c)
  case Nil
  then show ?case by (simp add: masterAddrs_def)
next
  case (Cons g gs)
  from Cons.prems obtain s e a where pg: "parseGroup src g = Ok (s, e, a)"
    by (cases "parseGroup src g") auto
  from Cons.prems pg obtain m where ss: "setSlots s e a (mapping c) = Inr m"
    by (cases "setSlots s e a (mapping c)") auto
  have ma: "masterAddrs src (g # gs) = insert a (masterAddrs src gs)"
    using parseGroup_masterAddr [OF pg] by (auto simp add: masterAddrs_def)
  show ?case
  proof (cases "map_of (pools c) a")
    case (Some slotPool)
    with Cons.prems pg ss
    have "resetLoop E src gs (AList.update a slotPool np) ch (c\<lparr>mapping := m\<rparr>)
            = Inr (Inr (np', ch'), c')"
      by (simp add: Let_def)
    from Cons.IH [OF this] ma show ?thesis
      by (auto simp add: update_key_set)
  next
    case None
    obtain r c2 where np: "newPool E a (c\<lparr>mapping := m\<rparr>) = (r, c2)"
      by (cases "newPool E a (c\<lparr>mapping := m\<rparr>)")
    with Cons.prems pg ss None obtain slotPool where r: "r = Inr slotPool"
      by (cases r) (auto simp add: Let_def)
    with Cons.prems pg ss None np
    have "resetLoop E src gs (AList.update a slotPool np) True c2 = Inr (Inr (np', ch'), c')"
      by (simp add: Let_def)
    from Cons.IH [OF this] ma newPool_facts(1,3) [OF np] show ?thesis
      by (auto simp add: update_key_set)
  qed
qed

lemma emptyDropped_facts:
  assumes "emptyDropped old np ch c = (ch', c')"
  shows "pools c' = pools c \<and> (\<exists>evs. events c' = events c @ evs)
     \<and> (\<forall>a \<in> fst ` set old. a \<notin> fst ` set np \<longrightarrow> EvEmpty a \<in> set (events c'))"
  using assms
proof (induction old arbitrary: ch c)
  case Nil
  then show ?case by simp
next
  case (Cons x rest)
  obtain addr p where x: "x = (addr, p)" by (cases x)
  show ?case
  proof (cases "map_of np addr = None")
    case True
    obtain p' closed where e: "Empty p = (p', closed)" by (cases "Empty p")
    let ?c1 = "emit (EvEmpty addr # map EvClose closed) c"
    from Cons.prems x True e have "emptyDropped rest np True ?c1 = (ch', c')" by simp
    from Cons.IH [OF this] obtain evs where
      h: "pools c' = pools ?c1" "events c' = events ?c1 @ evs"
         "\<forall>a \<in> fst ` set rest. a \<notin> fst ` set np \<longrightarrow> EvEmpty a \<in> set (events c')"
      by blast
    from h x show ?thesis by (auto simp add: emit_def)
  next
    case False
    with Cons.prems x have "emptyDropped rest np ch c = (ch', c')" by simp
    from Cons.IH [OF this] False x show ?thesis
      by (auto simp add: map_of_eq_None_iff)
  qed
qed

text \<open>
  C3, as the code has it.  A \<open>Reset\<close> that is not throttled and returns no error has
  taken a pool \<open>p\<close> of the registry, borrowed a connection from it and read the reply
  \<open>elems\<close> on it.  The new registry starts as \<open>{p.Addr: p}\<close>, so its keys are the
  master addresses of the reply together with \<open>p.Addr\<close>; and every address of the old
  registry that is not a key of the new one had its pool emptied.
\<close>

theorem Reset_registry_keys:
  assumes "resetInner E c = Inr (None, c')" and "\<not> resetThrottle c \<or> e_token E (clock c)"
  shows "\<exists>k p cl elems.
           getRandomPoolInner E (tick (c\<lparr>resetThrottle := True\<rparr>)) = Some (k, p)
         \<and> EvGet k (Inr cl) \<in> set (events c')
         \<and> Array_resp (e_cmd E (clock c + 3) cl [''CLUSTER'', ''SLOTS'']) = Inr elems
         \<and> fst ` set (pools c') = insert (Addr p) (masterAddrs (Addr p) elems)
         \<and> (\<forall>a \<in> fst ` set (pools c). a \<notin> fst ` set (pools c') \<longrightarrow> EvEmpty a \<in> set (events c'))"
proof -
  let ?c = "tick (c\<lparr>resetThrottle := True\<rparr>)"
  from assms obtain k p where rp: "getRandomPoolInner E ?c = Some (k, p)"
    by (cases "getRandomPoolInner E ?c") (auto simp add: resetInner_def Let_def)
  obtain r p' c1 where g: "regGet E k p (tick ?c) = (r, p', c1)"
    by (cases "regGet E k p (tick ?c)")
  from assms rp g obtain cl where r: "r = Inr cl"
    by (cases r) (auto simp add: resetInner_def Let_def)
  note gf = regGet_facts [OF g]
  have clk: "clock c1 = clock c + 3" using gf(4) by (simp add: tick_def)
  let ?reply = "e_cmd E (clock c1) cl [''CLUSTER'', ''SLOTS'']"
  let ?c2 = "emit [EvCmd cl [''CLUSTER'', ''SLOTS'']] (tick c1)"
  from assms rp g r obtain elems where ar: "Array_resp ?reply = Inr elems"
    by (cases "Array_resp ?reply") (auto simp add: resetInner_def Let_def)
  from assms rp g r ar have ne: "elems \<noteq> []"
    by (auto simp add: resetInner_def Let_def split: if_splits)
  from assms rp g r ar ne obtain np ch c3 where
    rl: "resetLoop E (Addr p) elems [(Addr p, p')] False ?c2 = Inr (Inr (np, ch), c3)"
    by (auto simp add: resetInner_def Let_def split: sum.splits prod.splits)
  obtain ch' c4 where ed: "emptyDropped (pools c3) np ch c3 = (ch', c4)"
    by (cases "emptyDropped (pools c3) np ch c3")
  have nt: "\<not> (resetThrottle c \<and> \<not> e_token E (clock c))"
    using assms(2) by blast
  from assms(1)
  have c': "c' = emit [EvClose cl] (if ch' then emit [EvChange] (c4\<lparr>pools := np\<rparr>) else c4\<lparr>pools := np\<rparr>)"
    by (simp add: resetInner_def Let_def nt rp g r ar ne rl ed)
  from resetLoop_keys [OF rl] obtain evs3 where
    k3: "fst ` set np = insert (Addr p) (masterAddrs (Addr p) elems)" "pools c3 = pools ?c2"
        "events c3 = events ?c2 @ evs3"
    by auto
  from emptyDropped_facts [OF ed] obtain evs4 where
    k4: "events c4 = events c3 @ evs4"
        "\<forall>a \<in> fst ` set (pools c3). a \<notin> fst ` set np \<longrightarrow> EvEmpty a \<in> set (events c4)"
    by blast
  have keys: "fst ` set (pools c3) = fst ` set (pools c)"
  proof -
    have "map fst (pools c3) = map fst (pools c)"
      using k3(2) gf(3) by (simp add: emit_def tick_def)
    then have "set (map fst (pools c3)) = set (map fst (pools c))" by simp
    then show ?thesis by simp
  qed
  have p1: "fst ` set (pools c') = insert (Addr p) (masterAddrs (Addr p) elems)"
    using c' k3(1) by (simp add: emit_def)
  have evget: "EvGet k (Inr cl) \<in> set (events c')"
    using c' k4(1) k3(3) gf(1) r by (simp add: emit_def tick_def)
  have sub: "set (events c4) \<subseteq> set (events c')"
    using c' by (auto simp add: emit_def)
  have pk: "fst ` set (pools c') = fst ` set np"
    using c' by (simp add: emit_def)
  have p2: "\<forall>a \<in> fst ` set (pools c). a \<notin> fst ` set (pools c') \<longrightarrow> EvEmpty a \<in> set (events c')"
    using k4(2) sub unfolding keys pk by blast
  from rp evget ar [unfolded clk] p1 p2 show ?thesis by blast
qed


lemmas eval_defs = resetInner_def Let_def getRandomPoolInner_def tick_def
  regGet_def Get_def emit_def store_def Array_resp_def
  parseGroup_def bindO_def liftE_def liftP_def at_def Int_resp_def Str_resp_def Itoa_def
  digit_char_def newPool_def Empty_eq Err_def

lemma reset_demo_ok:
  "(case resetInner env0 cluster0 of Inr (None, c') \<Rightarrow> True | _ \<Rightarrow> False)"
  by (simp add: eval_defs env0_def cluster0_def pool11_def poolB_def slotsReply_def pool_fresh_def)

theorem Reset_registry_keys_witness:
  "\<exists>c'. resetInner env0 cluster0 = Inr (None, c')
      \<and> (\<exists>k p cl elems.
           getRandomPoolInner env0 (tick (cluster0\<lparr>resetThrottle := True\<rparr>)) = Some (k, p)
         \<and> EvGet k (Inr cl) \<in> set (events c')
         \<and> Array_resp (e_cmd env0 (clock cluster0 + 3) cl [''CLUSTER'', ''SLOTS'']) = Inr elems
         \<and> fst ` set (pools c') = insert (Addr p) (masterAddrs (Addr p) elems))"
proof -
  from reset_demo_ok obtain c' where r: "resetInner env0 cluster0 = Inr (None, c')"
    by (auto split: sum.splits prod.splits option.splits)
  have t: "\<not> resetThrottle cluster0 \<or> e_token env0 (clock cluster0)"
    by (simp add: cluster0_def)
  from Reset_registry_keys [OF r t] obtain k p cl elems where
    h: "getRandomPoolInner env0 (tick (cluster0\<lparr>resetThrottle := True\<rparr>)) = Some (k, p)"
       "EvGet k (Inr cl) \<in> set (events c')"
       "Array_resp (e_cmd env0 (clock cluster0 + 3) cl [''CLUSTER'', ''SLOTS'']) = Inr elems"
       "fst ` set (pools c') = insert (Addr p) (masterAddrs (Addr p) elems)"
    by (elim exE conjE)
  show ?thesis
    by (rule exI [of _ c'], rule conjI [OF r], rule exI [of _ k], rule exI [of _ p],
        rule exI [of _ cl], rule exI [of _ elems], intro conjI h)
qed

text \<open>
  C3 as stated fails.  From a registry holding only \<open>10.0.0.1:6379\<close>, a reply whose only
  master is \<open>10.0.0.9:6379\<close> gives a registry with both addresses, and the pool of
  \<open>10.0.0.1:6379\<close> is not emptied.  And a throttled \<open>Reset\<close> returns no error and
  does nothing.
\<close>

theorem Reset_registry_keys_counterexample:
  "(case resetInner env1 cluster1 of
      Inr (None, c') \<Rightarrow>
        map fst (pools c') = [''10.0.0.1:6379'', ''10.0.0.9:6379'']
        \<and> map (masterAddr ''10.0.0.1:6379'')
              [ArrayResp [IntResp 0, IntResp 1, ArrayResp [StrResp ''10.0.0.9'', IntResp 6379]]]
            = [Some ''10.0.0.9:6379'']
        \<and> EvEmpty ''10.0.0.1:6379'' \<notin> set (events c')
    | _ \<Rightarrow> False)
   \<and> (case resetInner (env0\<lparr>e_token := (\<lambda>n. False)\<rparr>) (cluster1\<lparr>resetThrottle := True\<rparr>) of
      Inr (None, c') \<Rightarrow> map fst (pools c') = [''10.0.0.1:6379''] \<and> events c' = []
    | _ \<Rightarrow> False)"
  by (simp add: eval_defs env1_def env0_def cluster1_def cluster0_def pool11_def
      slotsReply2_def pool_fresh_def)



text \<open>
  C4, as the code has it.  On an I/O error: if the client's address was not tried before,
  a connection for that same address is asked for and, when one is obtained, the command
  is retried with it; when none is obtained, or when the address was tried before, the
  second rung \<open>io_reset\<close> follows.  That rung returns the error response \<open>r\<close> if a
  \<open>Reset\<close> was done already; else it calls \<open>Reset\<close>, returns its error as an error
  response, and otherwise retries on a connection from any pool with
  \<open>haveReset = true\<close> and with \<open>tried\<close> as it is.
\<close>

theorem io_error_ladder:
  assumes "IsIOErr r"
  shows "(\<not> haveTried tried (cAddr client) \<longrightarrow>
            (\<forall>cl c1. getConn E [] (cAddr client) c = Inr (Inr cl, c1) \<longrightarrow>
               dispatch E c client r err tried haveReset
                 = Inr (Again cl False (justTried tried (cAddr client)) haveReset, c1))
          \<and> (\<forall>e c1. getConn E [] (cAddr client) c = Inr (Inl e, c1) \<longrightarrow>
               dispatch E c client r err tried haveReset
                 = io_reset E c1 r (justTried tried (cAddr client)) haveReset))
     \<and> (haveTried tried (cAddr client) \<longrightarrow>
            dispatch E c client r err tried haveReset = io_reset E c r tried haveReset)
     \<and> (\<forall>c0 t. io_reset E c0 r t True = Inr (Return r, c0))
     \<and> (\<forall>c0 t e c1. resetInner E c0 = Inr (Some e, c1) \<longrightarrow>
            io_reset E c0 r t False
              = Inr (Return (errorResp (OtherErr (''Could not get cluster info: '' @ errMsg e))), c1))
     \<and> (\<forall>c0 t c1 cl c2. resetInner E c0 = Inr (None, c1) \<longrightarrow>
            getConn E [] [] c1 = Inr (Inr cl, c2) \<longrightarrow>
            io_reset E c0 r t False = Inr (Again cl False t True, c2))
     \<and> (\<forall>c0 t c1 e c2. resetInner E c0 = Inr (None, c1) \<longrightarrow>
            getConn E [] [] c1 = Inr (Inl e, c2) \<longrightarrow>
            io_reset E c0 r t False = Inr (Return (errorResp e), c2))"
  using assms
  by (auto simp add: dispatch_def io_reset_def Let_def justTried_def haveTried_def)


lemmas eval_defs2 = eval_defs dispatch_def attempt_def sendCmd_def getConn_def getConn_addr_def
  getConn_random_def clusterPut_def Put_def redirectInfo_def Atoi_def digit_val_def HasPrefix_def
  setSlot_def justTried_def haveTried_def io_reset_def moved_reset_def errMsg_def IsIOErr_def
  waitForReuse_def wrap32_def

text \<open>
  C4 as stated fails: after an I/O error on an address tried before and a successful
  \<open>Reset\<close>, the retry gets the \<open>tried\<close> set that holds the failing address, not an
  empty one.
\<close>

theorem io_error_ladder_tried_kept_counterexample:
  "(case dispatch env2 cluster2 conn1 (IOErrResp ''EOF'') (OtherErr ''EOF'') [''10.0.0.1:6379''] False of
      Inr (Again cl ask tried haveReset, c') \<Rightarrow>
        tried = [''10.0.0.1:6379''] \<and> tried \<noteq> [] \<and> haveReset \<and> \<not> ask
    | _ \<Rightarrow> False)"
  by (simp add: eval_defs2 env2_def env0_def cluster2_def poolC_def conn1_def slotsReply_def
      pool_fresh_def)

theorem io_error_ladder_witness:
  "IsIOErr (IOErrResp ''EOF'')
   \<and> dispatch env2 cluster2 conn1 (IOErrResp ''EOF'') (OtherErr ''EOF'') [''10.0.0.1:6379''] True
       = Inr (Return (IOErrResp ''EOF''), cluster2)"
proof -
  have i: "IsIOErr (IOErrResp ''EOF'')" by (simp add: IsIOErr_def)
  have t: "haveTried [''10.0.0.1:6379''] (cAddr conn1)" by (simp add: haveTried_def conn1_def)
  from io_error_ladder [OF i, of "[''10.0.0.1:6379'']" conn1 env2 cluster2 "OtherErr ''EOF''" True] t i
  show ?thesis by simp
qed

text \<open>
  C2, at the failing input.  The node of the key answers
  \<open>MOVED 7000 10.0.0.9:6379\<close> and the registry has no pool for that address.  The call
  builds a pool for it, borrows a connection from it and gets \<open>OK\<close> there; slot 7000 is
  remapped; but when the call is over the registry still has the one key it had, and no
  pool for \<open>10.0.0.9:6379\<close>.
\<close>

theorem Cmd_MOVED_pool_not_registered:
  "(case clientCmd (Suc (Suc 0)) env3 cluster2 conn1 [''GET'', ''k''] False [] False of
      Inr (Some r, c') \<Rightarrow>
        r = StrResp ''OK'' \<and> mapping c' 7000 = ''10.0.0.9:6379''
        \<and> map fst (pools c') = [''10.0.0.1:6379'']
        \<and> map_of (pools c') ''10.0.0.9:6379'' = None
        \<and> EvNewPool ''10.0.0.9:6379'' \<in> set (events c')
    | _ \<Rightarrow> False)"
  by (simp add: eval_defs2 env3_def env2_def env0_def cluster2_def poolC_def conn1_def pool_fresh_def)


end
